theory Spec2Isabelle
  imports Main
begin

section \<open>Values exchanged with the handlers\<close>

text \<open>
  The handlers of \<^verbatim>\<open>src/routes/image-metadata.routes.ts\<close> read untyped request data
  (\<^verbatim>\<open>req.body\<close>, \<^verbatim>\<open>req.query\<close>) and build object literals from it. Those values are
  modelled by the JavaScript value shapes a parsed request can hold. An object is the list
  of its own enumerable properties in insertion order. Numbers are carried through
  unread by every handler, so their payload is an integer here.
\<close>

datatype jsval =
    JUndefined
  | JNull
  | JBool bool
  | JNum int
  | JStr string
  | JArr "jsval list"
  | JObj "(string \<times> jsval) list"

type_synonym obj = "(string \<times> jsval) list"

text \<open>Truthiness, as \<^verbatim>\<open>!x\<close> and \<^verbatim>\<open>x && ...\<close> read it.\<close>

fun truthy :: "jsval \<Rightarrow> bool" where
  "truthy JUndefined = False"
| "truthy JNull = False"
| "truthy (JBool b) = b"
| "truthy (JNum n) = (n \<noteq> 0)"
| "truthy (JStr s) = (s \<noteq> [])"
| "truthy (JArr _) = True"
| "truthy (JObj _) = True"

text \<open>The \<^verbatim>\<open>typeof\<close> operator.\<close>

fun typeof :: "jsval \<Rightarrow> string" where
  "typeof JUndefined = ''undefined''"
| "typeof JNull = ''object''"
| "typeof (JBool _) = ''boolean''"
| "typeof (JNum _) = ''number''"
| "typeof (JStr _) = ''string''"
| "typeof (JArr _) = ''object''"
| "typeof (JObj _) = ''object''"

text \<open>Reading a property (\<^verbatim>\<open>o.k\<close>): an absent property reads as \<^verbatim>\<open>undefined\<close>.\<close>

fun get_prop :: "obj \<Rightarrow> string \<Rightarrow> jsval" where
  "get_prop [] k = JUndefined"
| "get_prop ((k', v) # ps) k = (if k' = k then v else get_prop ps k)"

text \<open>
  Defining a property: an existing key keeps its place and takes the new value, a new key
  goes last.
\<close>

fun set_prop :: "obj \<Rightarrow> string \<Rightarrow> jsval \<Rightarrow> obj" where
  "set_prop [] k v = [(k, v)]"
| "set_prop ((k', v') # ps) k v =
     (if k' = k then (k, v) # ps else (k', v') # set_prop ps k v)"

text \<open>
  The spread \<^verbatim>\<open>{ ...o }\<close>: a fresh object receives the own properties of \<^verbatim>\<open>o\<close>, one
  after the other.
\<close>

definition spread :: "obj \<Rightarrow> obj" where
  "spread ps = foldl (\<lambda>acc (k, v). set_prop acc k v) [] ps"

text \<open>\<^verbatim>\<open>const updatedBody = { ...req.body, imgUrl }\<close> (line 88).\<close>

definition updatedBody :: "obj \<Rightarrow> jsval \<Rightarrow> obj" where
  "updatedBody body imgUrl = set_prop (spread body) ''imgUrl'' imgUrl"

section \<open>Constants\<close>

text \<open>
  Modelled from the spec: the status codes of \<^verbatim>\<open>constants/http-status.constants\<close>, which
  is imported by the routes file but is not among the sources. The spec's interface section
  gives 200 for success, 400 for a bad request, 401 for missing authorization and 500 for a
  processing failure.
\<close>

definition OKAY :: nat where "OKAY = 200"
definition BAD_REQUEST :: nat where "BAD_REQUEST = 400"
definition UNAUTHORIZED :: nat where "UNAUTHORIZED = 401"
definition INTERNAL_SERVER_ERROR :: nat where "INTERNAL_SERVER_ERROR = 500"

text \<open>
  Modelled from the spec: the message texts of \<^verbatim>\<open>constants/messages.constants\<close>, also
  imported and not among the sources. The spec quotes four of them. It does not quote the
  text of \<^verbatim>\<open>MISSING_AUTH\<close>, which is therefore a field of the environment below.
\<close>

definition IMAGE_FILE_NOT_FOUND :: string where
  "IMAGE_FILE_NOT_FOUND = ''image file not found''"
definition IMAGE_FILE_TYPE_UNSUPPORTED :: string where
  "IMAGE_FILE_TYPE_UNSUPPORTED = ''unsupported image file type''"
definition IMAGE_NOT_FOUND :: string where
  "IMAGE_NOT_FOUND = ''image not found''"
definition IMAGE_PROCESSING_FAILED :: string where
  "IMAGE_PROCESSING_FAILED = ''image processing failed''"

section \<open>Responses, failures and the collaborators of the create handler\<close>

text \<open>
  Modelled from the spec: the persisted entity of \<^verbatim>\<open>schemas/image-metadata\<close> (not among
  the sources), with the fields of the spec's data model: the identifier, the image
  location, the detected labels, the upload flag and the descriptive fields.
\<close>

record image_metadata =
  md_id :: string
  md_imgUrl :: string
  md_objects :: "string list"
  md_isUploadedFile :: bool
  md_extra :: obj

text \<open>What \<^verbatim>\<open>res.send\<close> is given: a string, an object literal, or stored documents.\<close>

datatype payload =
    Text string
  | Json jsval
  | Records "image_metadata list"
  | Record image_metadata

record response =
  status :: nat
  sent :: payload

text \<open>
  A rejected \<^verbatim>\<open>await\<close> inside the \<^verbatim>\<open>try\<close> block. The \<^verbatim>\<open>catch\<close> clause reads
  \<^verbatim>\<open>(error as Error).message\<close>, so a failure is an \<^verbatim>\<open>Error\<close> carrying its message.
\<close>

datatype js_error = Error (message: string)

text \<open>
  The library predicates and the two operations of \<^verbatim>\<open>ImageService\<close> are imported by the
  routes file and are not among the sources: the handler takes them as parameters. An
  operation either returns or fails with an error.
\<close>

record services =
  isValidImage :: "jsval \<Rightarrow> bool"
  isLocalFile :: "jsval \<Rightarrow> bool"
  handleLocalFile :: "jsval \<Rightarrow> string \<Rightarrow> js_error + string"
  createImage :: "obj \<Rightarrow> bool \<Rightarrow> string \<Rightarrow> js_error + obj"
  MISSING_AUTH :: string

text \<open>The calls a request makes, in order, with their arguments.\<close>

datatype call =
    IsValidImage jsval
  | IsLocalFile jsval
  | HandleLocalFile jsval string
  | CreateImage obj bool string

fun is_resolver_call :: "call \<Rightarrow> bool" where
  "is_resolver_call (HandleLocalFile _ _) = True"
| "is_resolver_call _ = False"

fun is_create_call :: "call \<Rightarrow> bool" where
  "is_create_call (CreateImage _ _ _) = True"
| "is_create_call _ = False"

definition resolver_calls :: "call list \<Rightarrow> nat" where
  "resolver_calls log = length (filter is_resolver_call log)"

definition create_calls :: "call list \<Rightarrow> nat" where
  "create_calls log = length (filter is_create_call log)"

record post_request =
  authorization :: "string option"
  body :: obj

section \<open>POST /images\<close>

text \<open>
  Lines 80 to 86: the reference is classified; a local one is handed to the resolver with
  the caller's token and replaced by what the resolver returns, and the upload flag is set.
  The result is the pair of \<^verbatim>\<open>imgUrl\<close> and \<^verbatim>\<open>isUploadedFile\<close> after the \<^verbatim>\<open>if\<close>.
\<close>

definition resolve_reference ::
  "services \<Rightarrow> jsval \<Rightarrow> string \<Rightarrow> (js_error + jsval \<times> bool) \<times> call list" where
  "resolve_reference env imgUrl tok =
     (if isLocalFile env imgUrl then
        (case handleLocalFile env imgUrl tok of
           Inl e \<Rightarrow> (Inl e, [IsLocalFile imgUrl, HandleLocalFile imgUrl tok])
         | Inr url \<Rightarrow> (Inr (JStr url, True), [IsLocalFile imgUrl, HandleLocalFile imgUrl tok]))
      else (Inr (imgUrl, False), [IsLocalFile imgUrl]))"

text \<open>Lines 78 to 93: the body of the \<^verbatim>\<open>try\<close> block up to the awaited creation.\<close>

definition try_block ::
  "services \<Rightarrow> obj \<Rightarrow> jsval \<Rightarrow> string \<Rightarrow> (js_error + obj) \<times> call list" where
  "try_block env bdy imgUrl tok =
     (case resolve_reference env imgUrl tok of
        (Inl e, log) \<Rightarrow> (Inl e, log)
      | (Inr (imgUrl', isUploadedFile), log) \<Rightarrow>
          (createImage env (updatedBody bdy imgUrl') isUploadedFile tok,
           log @ [CreateImage (updatedBody bdy imgUrl') isUploadedFile tok]))"

text \<open>Lines 94 to 105: the success response and the \<^verbatim>\<open>catch\<close> clause.\<close>

definition respond :: "js_error + obj \<Rightarrow> response" where
  "respond outcome =
     (case outcome of
        Inr result \<Rightarrow> \<lparr>status = OKAY, sent = Json (JObj (spread result))\<rparr>
      | Inl error \<Rightarrow>
          (let msg = message error in
           if msg = IMAGE_FILE_NOT_FOUND
           then \<lparr>status = BAD_REQUEST, sent = Text IMAGE_FILE_NOT_FOUND\<rparr>
           else \<lparr>status = INTERNAL_SERVER_ERROR, sent = Text IMAGE_PROCESSING_FAILED\<rparr>))"

text \<open>
  Lines 65 to 106. The header \<^verbatim>\<open>authorization\<close> is a string or absent; \<^verbatim>\<open>!h\<close> holds for
  the absent header and for the empty string.
\<close>

definition header_value :: "string option \<Rightarrow> jsval" where
  "header_value h = (case h of None \<Rightarrow> JUndefined | Some s \<Rightarrow> JStr s)"

definition post_images :: "services \<Rightarrow> post_request \<Rightarrow> response \<times> call list" where
  "post_images env req =
     (if \<not> truthy (header_value (authorization req))
      then (\<lparr>status = UNAUTHORIZED, sent = Text (MISSING_AUTH env)\<rparr>, [])
      else
        (case authorization req of
           None \<Rightarrow> (\<lparr>status = UNAUTHORIZED, sent = Text (MISSING_AUTH env)\<rparr>, [])
         | Some tok \<Rightarrow>
            (let imgUrl = get_prop (body req) ''imgUrl'' in
             if \<not> isValidImage env imgUrl
             then (\<lparr>status = BAD_REQUEST,
                    sent = Json (JObj [(''message'', JStr IMAGE_FILE_TYPE_UNSUPPORTED)])\<rparr>,
                   [IsValidImage imgUrl])
             else
               (case try_block env (body req) imgUrl tok of
                  (outcome, log) \<Rightarrow> (respond outcome, IsValidImage imgUrl # log)))))"

section \<open>The read path\<close>

text \<open>
  \<^verbatim>\<open>objects.split(',')\<close> (line 30): the pieces between the separators, empty pieces
  included; a string without a separator is its only piece.
\<close>

fun split_on :: "char \<Rightarrow> string \<Rightarrow> string list" where
  "split_on sep [] = [[]]"
| "split_on sep (c # cs) =
     (if c = sep then [] # split_on sep cs
      else (case split_on sep cs of
              [] \<Rightarrow> [[c]]
            | w # ws \<Rightarrow> (c # w) # ws))"

text \<open>
  Modelled from the spec: the document store behind \<^verbatim>\<open>ImageMetadata.find\<close> and
  \<^verbatim>\<open>ImageMetadata.findById\<close>, an external collaborator that is not among the sources.
  The store is the list of stored records in the store's natural order. The two query shapes
  the handler builds are \<^verbatim>\<open>{}\<close> and \<^verbatim>\<open>{ objects: { $in: arr } }\<close>; the latter selects a
  record when one of the elements of its \<^verbatim>\<open>objects\<close> array is one of the values of
  \<^verbatim>\<open>arr\<close> (the spec: the records whose objects set intersects the requested set).
\<close>

datatype query = MatchAll | ObjectsIn "string list"

fun matches :: "query \<Rightarrow> image_metadata \<Rightarrow> bool" where
  "matches MatchAll d = True"
| "matches (ObjectsIn arr) d = list_ex (\<lambda>l. l \<in> set arr) (md_objects d)"

definition find_docs :: "image_metadata list \<Rightarrow> query \<Rightarrow> image_metadata list" where
  "find_docs store q = filter (matches q) store"

text \<open>\<^verbatim>\<open>findById\<close>: the stored record with the identifier, or \<^verbatim>\<open>null\<close>.\<close>

definition findById :: "image_metadata list \<Rightarrow> string \<Rightarrow> image_metadata option" where
  "findById store i = List.find (\<lambda>d. md_id d = i) store"

text \<open>Lines 26 to 38; the argument is \<^verbatim>\<open>req.query.objects\<close>.\<close>

definition get_images :: "image_metadata list \<Rightarrow> jsval \<Rightarrow> response" where
  "get_images store objects_param =
     (if truthy objects_param \<and> typeof objects_param = ''string'' then
        (case objects_param of
           JStr objects \<Rightarrow>
             (let objectsArr = split_on CHR '','' objects in
              \<lparr>status = OKAY, sent = Records (find_docs store (ObjectsIn objectsArr))\<rparr>)
         | _ \<Rightarrow> \<lparr>status = OKAY, sent = Records (find_docs store MatchAll)\<rparr>)
      else \<lparr>status = OKAY, sent = Records (find_docs store MatchAll)\<rparr>)"

text \<open>Lines 47 to 56; the argument is \<^verbatim>\<open>req.params.id\<close>.\<close>

definition get_image_by_id :: "image_metadata list \<Rightarrow> string \<Rightarrow> response" where
  "get_image_by_id store i =
     (case findById store i of
        None \<Rightarrow> \<lparr>status = BAD_REQUEST, sent = Json (JObj [(''message'', JStr IMAGE_NOT_FOUND)])\<rparr>
      | Some img \<Rightarrow> \<lparr>status = OKAY, sent = Record img\<rparr>)"

section \<open>Concrete collaborators for evaluation\<close>

text \<open>
  A validator that accepts references ending in \<^verbatim>\<open>.png\<close>, a classifier that takes a
  leading slash for a local path, a resolver that knows one upload, and a creation call that
  returns the record it was given with an identifier.
\<close>

definition ends_with :: "string \<Rightarrow> string \<Rightarrow> bool" where
  "ends_with suffix s = (length suffix \<le> length s \<and> drop (length s - length suffix) s = suffix)"

definition demo_valid :: "jsval \<Rightarrow> bool" where
  "demo_valid v = (case v of JStr s \<Rightarrow> ends_with ''.png'' s | _ \<Rightarrow> False)"

definition demo_local :: "jsval \<Rightarrow> bool" where
  "demo_local v = (case v of JStr s \<Rightarrow> take 1 s = ''/'' | _ \<Rightarrow> False)"

definition demo_resolver :: "jsval \<Rightarrow> string \<Rightarrow> js_error + string" where
  "demo_resolver v tok =
     (if v = JStr ''/tmp/cat.png'' then Inr ''https://cdn.example/cat.png''
      else if v = JStr ''/tmp/gone.png'' then Inl (Error IMAGE_FILE_NOT_FOUND)
      else Inl (Error ''upload service unavailable''))"

definition demo_create :: "obj \<Rightarrow> bool \<Rightarrow> string \<Rightarrow> js_error + obj" where
  "demo_create r isUploadedFile tok =
     (if get_prop r ''label'' = JStr ''reject'' then Inl (Error ''detection failed'')
      else Inr ((''_id'', JStr ''64b0'') # (''isUploadedFile'', JBool isUploadedFile) # r))"

definition demo_services :: services where
  "demo_services =
     \<lparr>isValidImage = demo_valid, isLocalFile = demo_local,
      handleLocalFile = demo_resolver, createImage = demo_create,
      MISSING_AUTH = ''missing authorization header''\<rparr>"

text \<open>
  A creation call of a service that fetches the image itself and reports an image it cannot
  fetch with the not-found message.
\<close>

definition fetching_create :: "obj \<Rightarrow> bool \<Rightarrow> string \<Rightarrow> js_error + obj" where
  "fetching_create r isUploadedFile tok =
     (if get_prop r ''imgUrl'' = JStr ''https://example.org/missing.png''
      then Inl (Error IMAGE_FILE_NOT_FOUND)
      else Inr r)"

definition fetching_services :: services where
  "fetching_services = demo_services\<lparr>createImage := fetching_create\<rparr>"

text \<open>Requests: a remote reference, three local ones, an unsupported one, a rejected one.\<close>

definition remote_request :: post_request where
  "remote_request =
     \<lparr>authorization = Some ''token'',
      body = [(''imgUrl'', JStr ''https://example.org/cat.png''), (''label'', JStr ''pet'')]\<rparr>"

definition local_request :: post_request where
  "local_request =
     \<lparr>authorization = Some ''token'',
      body = [(''label'', JStr ''pet''), (''imgUrl'', JStr ''/tmp/cat.png'')]\<rparr>"

definition gone_request :: post_request where
  "gone_request =
     \<lparr>authorization = Some ''token'', body = [(''imgUrl'', JStr ''/tmp/gone.png'')]\<rparr>"

definition text_request :: post_request where
  "text_request =
     \<lparr>authorization = Some ''token'', body = [(''imgUrl'', JStr ''notes.txt'')]\<rparr>"

definition rejected_request :: post_request where
  "rejected_request =
     \<lparr>authorization = Some ''token'',
      body = [(''imgUrl'', JStr ''https://example.org/cat.png''), (''label'', JStr ''reject'')]\<rparr>"

definition missing_request :: post_request where
  "missing_request =
     \<lparr>authorization = Some ''token'',
      body = [(''imgUrl'', JStr ''https://example.org/missing.png'')]\<rparr>"

text \<open>A store of three records.\<close>

definition cat_doc :: image_metadata where
  "cat_doc =
     \<lparr>md_id = ''a1'', md_imgUrl = ''https://example.org/cat.png'', md_objects = [''cat'', ''sofa''],
      md_isUploadedFile = False, md_extra = []\<rparr>"

definition dog_doc :: image_metadata where
  "dog_doc =
     \<lparr>md_id = ''b2'', md_imgUrl = ''https://example.org/dog.png'', md_objects = [''dog''],
      md_isUploadedFile = False, md_extra = []\<rparr>"

definition tree_doc :: image_metadata where
  "tree_doc =
     \<lparr>md_id = ''c3'', md_imgUrl = ''https://cdn.example/tree.png'', md_objects = [''tree''],
      md_isUploadedFile = True, md_extra = []\<rparr>"

definition demo_store :: "image_metadata list" where
  "demo_store = [cat_doc, dog_doc, tree_doc]"

section \<open>Objects and the spread\<close>

lemma get_set_same: "get_prop (set_prop ps k v) k = v"
  by (induction ps) auto

lemma get_set_other: "k' \<noteq> k \<Longrightarrow> get_prop (set_prop ps k v) k' = get_prop ps k'"
  by (induction ps) auto

lemma set_prop_fresh: "k \<notin> fst ` set ps \<Longrightarrow> set_prop ps k v = ps @ [(k, v)]"
  by (induction ps) auto

lemma foldl_set_prop_distinct:
  "distinct (map fst (acc @ ps)) \<Longrightarrow>
     foldl (\<lambda>acc (k, v). set_prop acc k v) acc ps = acc @ ps"
proof (induction ps arbitrary: acc)
  case Nil
  then show ?case by simp
next
  case (Cons p ps)
  obtain k v where p: "p = (k, v)" by (cases p)
  from Cons.prems p have fresh: "k \<notin> fst ` set acc" by auto
  from Cons.prems p have "distinct (map fst ((acc @ [(k, v)]) @ ps))" by auto
  from Cons.IH [OF this] show ?case
    by (simp add: p set_prop_fresh [OF fresh])
qed

text \<open>An object names each of its keys once; spreading it yields the same properties.\<close>

lemma spread_distinct: "distinct (map fst ps) \<Longrightarrow> spread ps = ps"
  using foldl_set_prop_distinct [of "[]" ps] by (simp add: spread_def)

lemma updatedBody_imgUrl: "get_prop (updatedBody bdy v) ''imgUrl'' = v"
  by (simp add: updatedBody_def get_set_same)

lemma updatedBody_other:
  "distinct (map fst bdy) \<Longrightarrow> k \<noteq> ''imgUrl'' \<Longrightarrow> get_prop (updatedBody bdy v) k = get_prop bdy k"
  by (simp add: updatedBody_def spread_distinct get_set_other)

section \<open>The paths through the create handler\<close>

lemma post_images_rejected:
  assumes "authorization req = Some tok" and "tok \<noteq> []"
    and "\<not> isValidImage env (get_prop (body req) ''imgUrl'')"
  shows "post_images env req =
     (\<lparr>status = BAD_REQUEST,
       sent = Json (JObj [(''message'', JStr IMAGE_FILE_TYPE_UNSUPPORTED)])\<rparr>,
      [IsValidImage (get_prop (body req) ''imgUrl'')])"
  using assms by (simp add: post_images_def header_value_def)

lemma post_images_accepted:
  assumes "authorization req = Some tok" and "tok \<noteq> []"
    and "isValidImage env (get_prop (body req) ''imgUrl'')"
  shows "post_images env req =
     (respond (fst (try_block env (body req) (get_prop (body req) ''imgUrl'') tok)),
      IsValidImage (get_prop (body req) ''imgUrl'')
        # snd (try_block env (body req) (get_prop (body req) ''imgUrl'') tok))"
  using assms by (simp add: post_images_def header_value_def Let_def split: prod.splits)

lemma try_block_remote:
  assumes "\<not> isLocalFile env v"
  shows "try_block env bdy v tok =
     (createImage env (updatedBody bdy v) False tok,
      [IsLocalFile v, CreateImage (updatedBody bdy v) False tok])"
  using assms by (simp add: try_block_def resolve_reference_def)

lemma try_block_local_failed:
  assumes "isLocalFile env v" and "handleLocalFile env v tok = Inl e"
  shows "try_block env bdy v tok = (Inl e, [IsLocalFile v, HandleLocalFile v tok])"
  using assms by (simp add: try_block_def resolve_reference_def)

lemma try_block_local_resolved:
  assumes "isLocalFile env v" and "handleLocalFile env v tok = Inr url"
  shows "try_block env bdy v tok =
     (createImage env (updatedBody bdy (JStr url)) True tok,
      [IsLocalFile v, HandleLocalFile v tok, CreateImage (updatedBody bdy (JStr url)) True tok])"
  using assms by (simp add: try_block_def resolve_reference_def)

lemma respond_failure:
  "respond (Inl (Error m)) =
     (if m = ''image file not found''
      then \<lparr>status = 400, sent = Text ''image file not found''\<rparr>
      else \<lparr>status = 500, sent = Text ''image processing failed''\<rparr>)"
  by (simp add: respond_def IMAGE_FILE_NOT_FOUND_def IMAGE_PROCESSING_FAILED_def
      BAD_REQUEST_def INTERNAL_SERVER_ERROR_def)

section \<open>The concrete collaborators evaluated\<close>

lemma demo_services_sel:
  "isValidImage demo_services = demo_valid"
  "isLocalFile demo_services = demo_local"
  "handleLocalFile demo_services = demo_resolver"
  "createImage demo_services = demo_create"
  "MISSING_AUTH demo_services = ''missing authorization header''"
  by (simp_all add: demo_services_def)

lemma fetching_services_sel:
  "isValidImage fetching_services = demo_valid"
  "isLocalFile fetching_services = demo_local"
  "createImage fetching_services = fetching_create"
  by (simp_all add: fetching_services_def demo_services_def)

lemma demo_valid_eval:
  "\<not> demo_valid (JStr ''notes.txt'')"
  "demo_valid (JStr ''https://example.org/cat.png'')"
  "demo_valid (JStr ''https://example.org/missing.png'')"
  "demo_valid (JStr ''/tmp/cat.png'')"
  "demo_valid (JStr ''/tmp/gone.png'')"
  by (simp_all add: demo_valid_def ends_with_def)

lemma demo_local_eval:
  "\<not> demo_local (JStr ''https://example.org/cat.png'')"
  "\<not> demo_local (JStr ''https://example.org/missing.png'')"
  "demo_local (JStr ''/tmp/cat.png'')"
  "demo_local (JStr ''/tmp/gone.png'')"
  by (simp_all add: demo_local_def)

section \<open>The read path: splitting and querying\<close>

lemma split_on_not_Nil: "split_on sep s \<noteq> []"
  by (induction s) (auto split: list.splits)

text \<open>No piece holds the separator, and the pieces put back between separators give the string.\<close>

lemma split_on_no_sep: "w \<in> set (split_on sep s) \<Longrightarrow> sep \<notin> set w"
proof (induction s arbitrary: w)
  case Nil
  then show ?case by simp
next
  case (Cons c cs)
  show ?case
  proof (cases "c = sep")
    case True
    with Cons show ?thesis by auto
  next
    case False
    obtain p ps where ps: "split_on sep cs = p # ps"
      using split_on_not_Nil [of sep cs] by (cases "split_on sep cs") auto
    with Cons False show ?thesis by auto
  qed
qed

lemma split_on_join: "concat (map ((#) sep) (split_on sep s)) = sep # s"
proof (induction s)
  case Nil
  then show ?case by simp
next
  case (Cons c cs)
  obtain p ps where ps: "split_on sep cs = p # ps"
    using split_on_not_Nil [of sep cs] by (cases "split_on sep cs") auto
  with Cons show ?case by auto
qed

lemma matches_ObjectsIn:
  "matches (ObjectsIn arr) d \<longleftrightarrow> set (md_objects d) \<inter> set arr \<noteq> {}"
  by (auto simp add: list_ex_iff)

lemma find_docs_MatchAll: "find_docs store MatchAll = store"
  by (simp add: find_docs_def)

lemma find_docs_ObjectsIn:
  "find_docs store (ObjectsIn arr) = filter (\<lambda>d. set (md_objects d) \<inter> set arr \<noteq> {}) store"
  unfolding find_docs_def by (rule filter_cong) (auto simp add: list_ex_iff)

lemma findById_absent: "(\<forall>d \<in> set store. md_id d \<noteq> i) \<Longrightarrow> findById store i = None"
  by (simp add: findById_def find_None_iff)

lemma findById_present:
  "distinct (map md_id store) \<Longrightarrow> d \<in> set store \<Longrightarrow> findById store (md_id d) = Some d"
  unfolding findById_def
proof (induction store)
  case Nil
  then show ?case by simp
next
  case (Cons x xs)
  then show ?case by (cases "md_id x = md_id d") (auto simp add: rev_image_eqI)
qed

section \<open>Properties of the create handler\<close>

text \<open>
  C1. A POST /images request without an authorization header is answered with status 401
  and the fixed missing-auth message, whatever its body holds, and the handler makes no
  call at all: neither validation nor classification, resolution or creation is reached.
\<close>

theorem post_without_authorization:
  assumes "authorization req = None"
  shows "post_images env req = (\<lparr>status = 401, sent = Text (MISSING_AUTH env)\<rparr>, [])"
  using assms by (simp add: post_images_def header_value_def UNAUTHORIZED_def)

theorem post_without_authorization_witness:
  "post_images demo_services \<lparr>authorization = None, body = [(''imgUrl'', JStr ''notes.txt'')]\<rparr>
     = (\<lparr>status = 401, sent = Text ''missing authorization header''\<rparr>, [])
   \<and> post_images demo_services \<lparr>authorization = None, body = []\<rparr>
     = (\<lparr>status = 401, sent = Text ''missing authorization header''\<rparr>, [])"
proof -
  have a: "authorization \<lparr>authorization = None, body = [(''imgUrl'', JStr ''notes.txt'')]\<rparr> = None"
    by simp
  have b: "authorization \<lparr>authorization = None, body = []\<rparr> = None"
    by simp
  from post_without_authorization [OF a, of demo_services]
       post_without_authorization [OF b, of demo_services]
  show ?thesis by (simp add: demo_services_sel)
qed

text \<open>
  C2. An authenticated POST /images request whose \<^verbatim>\<open>imgUrl\<close> fails the image-type
  validation is answered with status 400 and the body
  \<^verbatim>\<open>{message: "unsupported image file type"}\<close>. The validation is the only call made:
  neither the resolver \<^verbatim>\<open>handleLocalFile\<close> nor \<^verbatim>\<open>createImage\<close> is invoked.
\<close>

theorem post_unsupported_type:
  assumes "authorization req = Some tok" and "tok \<noteq> []"
    and "\<not> isValidImage env (get_prop (body req) ''imgUrl'')"
  shows "post_images env req =
           (\<lparr>status = 400, sent = Json (JObj [(''message'', JStr ''unsupported image file type'')])\<rparr>,
            [IsValidImage (get_prop (body req) ''imgUrl'')])
       \<and> resolver_calls (snd (post_images env req)) = 0
       \<and> create_calls (snd (post_images env req)) = 0"
  using assms
  by (simp add: post_images_rejected BAD_REQUEST_def IMAGE_FILE_TYPE_UNSUPPORTED_def
      resolver_calls_def create_calls_def)

theorem post_unsupported_type_witness:
  "\<not> isValidImage demo_services (JStr ''notes.txt'')
   \<and> post_images demo_services text_request =
       (\<lparr>status = 400, sent = Json (JObj [(''message'', JStr ''unsupported image file type'')])\<rparr>,
        [IsValidImage (JStr ''notes.txt'')])"
proof -
  have h1: "authorization text_request = Some ''token''" by (simp add: text_request_def)
  have h2: "''token'' \<noteq> []" by simp
  have v: "get_prop (body text_request) ''imgUrl'' = JStr ''notes.txt''"
    by (simp add: text_request_def)
  have h3: "\<not> isValidImage demo_services (get_prop (body text_request) ''imgUrl'')"
    by (simp add: v demo_services_sel demo_valid_eval)
  from post_unsupported_type [OF h1 h2 h3] h3 show ?thesis by (simp add: v)
qed

text \<open>
  C3. An authenticated POST /images request with a valid reference that is classified as
  remote makes exactly the calls validation, classification and one \<^verbatim>\<open>createImage\<close>;
  the resolver is not invoked. The record given to \<^verbatim>\<open>createImage\<close> carries the
  caller's \<^verbatim>\<open>imgUrl\<close> unchanged, and the upload flag given with it is false. When
  \<^verbatim>\<open>createImage\<close> returns a record, the response is status 200 with the spread of that
  record, which is the record itself.
\<close>

theorem post_remote_reference:
  assumes "authorization req = Some tok" and "tok \<noteq> []"
    and "v = get_prop (body req) ''imgUrl''"
    and "isValidImage env v" and "\<not> isLocalFile env v"
  shows "snd (post_images env req) =
           [IsValidImage v, IsLocalFile v, CreateImage (updatedBody (body req) v) False tok]
       \<and> get_prop (updatedBody (body req) v) ''imgUrl'' = v
       \<and> resolver_calls (snd (post_images env req)) = 0
       \<and> create_calls (snd (post_images env req)) = 1
       \<and> (createImage env (updatedBody (body req) v) False tok = Inr result \<longrightarrow>
            fst (post_images env req) = \<lparr>status = 200, sent = Json (JObj (spread result))\<rparr>
          \<and> (distinct (map fst result) \<longrightarrow>
               fst (post_images env req) = \<lparr>status = 200, sent = Json (JObj result)\<rparr>))"
  using assms
  by (simp add: post_images_accepted try_block_remote updatedBody_imgUrl
      resolver_calls_def create_calls_def respond_def OKAY_def spread_distinct)

theorem post_remote_reference_witness:
  "post_images demo_services remote_request =
     (\<lparr>status = 200,
       sent = Json (JObj [(''_id'', JStr ''64b0''), (''isUploadedFile'', JBool False),
                          (''imgUrl'', JStr ''https://example.org/cat.png''),
                          (''label'', JStr ''pet'')])\<rparr>,
      [IsValidImage (JStr ''https://example.org/cat.png''),
       IsLocalFile (JStr ''https://example.org/cat.png''),
       CreateImage [(''imgUrl'', JStr ''https://example.org/cat.png''), (''label'', JStr ''pet'')]
         False ''token''])"
proof -
  let ?v = "JStr ''https://example.org/cat.png''"
  let ?r = "[(''_id'', JStr ''64b0''), (''isUploadedFile'', JBool False),
             (''imgUrl'', ?v), (''label'', JStr ''pet'')]"
  have h1: "authorization remote_request = Some ''token''" by (simp add: remote_request_def)
  have h2: "''token'' \<noteq> []" by simp
  have h3: "?v = get_prop (body remote_request) ''imgUrl''" by (simp add: remote_request_def)
  have h4: "isValidImage demo_services ?v" by (simp add: demo_services_sel demo_valid_eval)
  have h5: "\<not> isLocalFile demo_services ?v" by (simp add: demo_services_sel demo_local_eval)
  have u: "updatedBody (body remote_request) ?v = [(''imgUrl'', ?v), (''label'', JStr ''pet'')]"
    by (simp add: remote_request_def updatedBody_def spread_def)
  have c: "createImage demo_services (updatedBody (body remote_request) ?v) False ''token'' = Inr ?r"
    by (simp add: u demo_services_sel demo_create_def)
  have d: "distinct (map fst ?r)" by simp
  from post_remote_reference [OF h1 h2 h3 h4 h5, of ?r] c d show ?thesis
    by (simp add: u prod_eq_iff spread_def)
qed

text \<open>
  C4. An authenticated POST /images request with a valid reference that is classified as
  local invokes the resolver \<^verbatim>\<open>handleLocalFile\<close> exactly once, with the reference and the
  caller's token. When the resolver returns a URL, \<^verbatim>\<open>createImage\<close> is given the upload
  flag true and a record whose \<^verbatim>\<open>imgUrl\<close> is the returned URL; whenever that URL differs
  from the original reference, so does the record's \<^verbatim>\<open>imgUrl\<close>.
\<close>

theorem post_local_reference:
  assumes "authorization req = Some tok" and "tok \<noteq> []"
    and "v = get_prop (body req) ''imgUrl''"
    and "isValidImage env v" and "isLocalFile env v"
  shows "take 3 (snd (post_images env req)) = [IsValidImage v, IsLocalFile v, HandleLocalFile v tok]
       \<and> resolver_calls (snd (post_images env req)) = 1
       \<and> (handleLocalFile env v tok = Inr url \<longrightarrow>
            snd (post_images env req) =
              [IsValidImage v, IsLocalFile v, HandleLocalFile v tok,
               CreateImage (updatedBody (body req) (JStr url)) True tok]
          \<and> get_prop (updatedBody (body req) (JStr url)) ''imgUrl'' = JStr url
          \<and> (JStr url \<noteq> v \<longrightarrow> get_prop (updatedBody (body req) (JStr url)) ''imgUrl'' \<noteq> v))"
proof (cases "handleLocalFile env v tok")
  case (Inl e)
  with assms show ?thesis
    by (simp add: post_images_accepted try_block_local_failed resolver_calls_def)
next
  case (Inr u)
  with assms show ?thesis
    by (simp add: post_images_accepted try_block_local_resolved resolver_calls_def
        updatedBody_imgUrl)
qed

theorem post_local_reference_witness:
  "handleLocalFile demo_services (JStr ''/tmp/cat.png'') ''token'' = Inr ''https://cdn.example/cat.png''
   \<and> snd (post_images demo_services local_request) =
       [IsValidImage (JStr ''/tmp/cat.png''), IsLocalFile (JStr ''/tmp/cat.png''),
        HandleLocalFile (JStr ''/tmp/cat.png'') ''token'',
        CreateImage [(''label'', JStr ''pet''), (''imgUrl'', JStr ''https://cdn.example/cat.png'')]
          True ''token'']
   \<and> resolver_calls (snd (post_images demo_services local_request)) = 1"
proof -
  let ?v = "JStr ''/tmp/cat.png''"
  have h1: "authorization local_request = Some ''token''" by (simp add: local_request_def)
  have h2: "''token'' \<noteq> []" by simp
  have h3: "?v = get_prop (body local_request) ''imgUrl''" by (simp add: local_request_def)
  have h4: "isValidImage demo_services ?v" by (simp add: demo_services_sel demo_valid_eval)
  have h5: "isLocalFile demo_services ?v" by (simp add: demo_services_sel demo_local_eval)
  have r: "handleLocalFile demo_services ?v ''token'' = Inr ''https://cdn.example/cat.png''"
    by (simp add: demo_services_sel demo_resolver_def)
  have u: "updatedBody (body local_request) (JStr ''https://cdn.example/cat.png'')
             = [(''label'', JStr ''pet''), (''imgUrl'', JStr ''https://cdn.example/cat.png'')]"
    by (simp add: local_request_def updatedBody_def spread_def)
  from post_local_reference [OF h1 h2 h3 h4 h5, of "''https://cdn.example/cat.png''"] r
  show ?thesis by (simp add: u resolver_calls_def)
qed

text \<open>
  C5. An authenticated POST /images request with a valid local reference whose resolution
  fails with the not-found error is answered with status 400 and the body
  \<^verbatim>\<open>"image file not found"\<close>; the calls made are validation, classification and the
  resolver, and \<^verbatim>\<open>createImage\<close> is not invoked.
\<close>

theorem post_local_file_not_found:
  assumes "authorization req = Some tok" and "tok \<noteq> []"
    and "v = get_prop (body req) ''imgUrl''"
    and "isValidImage env v" and "isLocalFile env v"
    and "handleLocalFile env v tok = Inl (Error ''image file not found'')"
  shows "post_images env req =
           (\<lparr>status = 400, sent = Text ''image file not found''\<rparr>,
            [IsValidImage v, IsLocalFile v, HandleLocalFile v tok])
       \<and> create_calls (snd (post_images env req)) = 0"
  using assms
  by (simp add: post_images_accepted try_block_local_failed respond_failure create_calls_def)

theorem post_local_file_not_found_witness:
  "post_images demo_services gone_request =
     (\<lparr>status = 400, sent = Text ''image file not found''\<rparr>,
      [IsValidImage (JStr ''/tmp/gone.png''), IsLocalFile (JStr ''/tmp/gone.png''),
       HandleLocalFile (JStr ''/tmp/gone.png'') ''token''])"
proof -
  let ?v = "JStr ''/tmp/gone.png''"
  have h1: "authorization gone_request = Some ''token''" by (simp add: gone_request_def)
  have h2: "''token'' \<noteq> []" by simp
  have h3: "?v = get_prop (body gone_request) ''imgUrl''" by (simp add: gone_request_def)
  have h4: "isValidImage demo_services ?v" by (simp add: demo_services_sel demo_valid_eval)
  have h5: "isLocalFile demo_services ?v" by (simp add: demo_services_sel demo_local_eval)
  have h6: "handleLocalFile demo_services ?v ''token'' = Inl (Error ''image file not found'')"
    by (simp add: demo_services_sel demo_resolver_def IMAGE_FILE_NOT_FOUND_def)
  from post_local_file_not_found [OF h1 h2 h3 h4 h5 h6] show ?thesis by simp
qed

text \<open>
  C6, as the handler has it. The \<^verbatim>\<open>catch\<close> clause looks at the message of the failure
  and not at the step that raised it. For an authenticated request with a valid reference,
  a failure of the resolver or of \<^verbatim>\<open>createImage\<close> is answered with status 500 and the
  body \<^verbatim>\<open>"image processing failed"\<close> when its message is not the not-found text, and
  with status 400 and the body \<^verbatim>\<open>"image file not found"\<close> when it is, from either call.
\<close>

theorem post_failure_by_message:
  assumes "authorization req = Some tok" and "tok \<noteq> []"
    and "v = get_prop (body req) ''imgUrl''"
    and "isValidImage env v"
    and "(isLocalFile env v \<and> handleLocalFile env v tok = Inl (Error m))
       \<or> (isLocalFile env v \<and> handleLocalFile env v tok = Inr url
            \<and> createImage env (updatedBody (body req) (JStr url)) True tok = Inl (Error m))
       \<or> (\<not> isLocalFile env v
            \<and> createImage env (updatedBody (body req) v) False tok = Inl (Error m))"
  shows "fst (post_images env req) =
           (if m = ''image file not found''
            then \<lparr>status = 400, sent = Text ''image file not found''\<rparr>
            else \<lparr>status = 500, sent = Text ''image processing failed''\<rparr>)"
proof -
  from assms(5) have "fst (try_block env (body req) v tok) = Inl (Error m)"
    by (auto simp add: try_block_local_failed try_block_local_resolved try_block_remote)
  with assms(1-4) show ?thesis
    by (simp add: post_images_accepted respond_failure)
qed

theorem post_failure_by_message_witness:
  "createImage demo_services (body rejected_request) False ''token'' = Inl (Error ''detection failed'')
   \<and> fst (post_images demo_services rejected_request) =
       \<lparr>status = 500, sent = Text ''image processing failed''\<rparr>"
proof -
  let ?v = "JStr ''https://example.org/cat.png''"
  have h1: "authorization rejected_request = Some ''token''" by (simp add: rejected_request_def)
  have h2: "''token'' \<noteq> []" by simp
  have h3: "?v = get_prop (body rejected_request) ''imgUrl''" by (simp add: rejected_request_def)
  have h4: "isValidImage demo_services ?v" by (simp add: demo_services_sel demo_valid_eval)
  have l: "\<not> isLocalFile demo_services ?v" by (simp add: demo_services_sel demo_local_eval)
  have u: "updatedBody (body rejected_request) ?v = body rejected_request"
    by (simp add: rejected_request_def updatedBody_def spread_def)
  have c: "createImage demo_services (body rejected_request) False ''token''
             = Inl (Error ''detection failed'')"
    by (simp add: rejected_request_def demo_services_sel demo_create_def)
  have h5: "(isLocalFile demo_services ?v
               \<and> handleLocalFile demo_services ?v ''token'' = Inl (Error ''detection failed''))
          \<or> (isLocalFile demo_services ?v
               \<and> handleLocalFile demo_services ?v ''token'' = Inr ''unused''
               \<and> createImage demo_services (updatedBody (body rejected_request) (JStr ''unused''))
                    True ''token'' = Inl (Error ''detection failed''))
          \<or> (\<not> isLocalFile demo_services ?v
               \<and> createImage demo_services (updatedBody (body rejected_request) ?v) False ''token''
                    = Inl (Error ''detection failed''))"
    using l c by (simp add: u)
  from post_failure_by_message [OF h1 h2 h3 h4 h5] c show ?thesis by simp
qed

text \<open>
  C6, as stated, fails: a \<^verbatim>\<open>createImage\<close> call that fails with the message
  \<^verbatim>\<open>"image file not found"\<close> on a valid remote reference is answered with status 400 and
  that message, not with the generic 500 response.
\<close>

theorem create_failure_not_found_counterexample:
  "authorization missing_request = Some ''token''
   \<and> isValidImage fetching_services (JStr ''https://example.org/missing.png'')
   \<and> \<not> isLocalFile fetching_services (JStr ''https://example.org/missing.png'')
   \<and> createImage fetching_services (body missing_request) False ''token''
       = Inl (Error ''image file not found'')
   \<and> post_images fetching_services missing_request =
       (\<lparr>status = 400, sent = Text ''image file not found''\<rparr>,
        [IsValidImage (JStr ''https://example.org/missing.png''),
         IsLocalFile (JStr ''https://example.org/missing.png''),
         CreateImage (body missing_request) False ''token''])"
proof -
  let ?v = "JStr ''https://example.org/missing.png''"
  have h1: "authorization missing_request = Some ''token''" by (simp add: missing_request_def)
  have v: "get_prop (body missing_request) ''imgUrl'' = ?v" by (simp add: missing_request_def)
  have h4: "isValidImage fetching_services ?v" by (simp add: fetching_services_sel demo_valid_eval)
  have h5: "\<not> isLocalFile fetching_services ?v" by (simp add: fetching_services_sel demo_local_eval)
  have u: "updatedBody (body missing_request) ?v = body missing_request"
    by (simp add: missing_request_def updatedBody_def spread_def)
  have c: "createImage fetching_services (body missing_request) False ''token''
             = Inl (Error ''image file not found'')"
    by (simp add: missing_request_def fetching_services_sel fetching_create_def
        IMAGE_FILE_NOT_FOUND_def)
  have "post_images fetching_services missing_request =
          (respond (Inl (Error ''image file not found'')),
           [IsValidImage ?v, IsLocalFile ?v, CreateImage (body missing_request) False ''token''])"
    using h1 h4 h5 c
    by (simp add: post_images_accepted [of _ "''token''"] v try_block_remote u)
  then show ?thesis using h1 h4 h5 c
    by (simp add: respond_failure)
qed

text \<open>
  C10. A POST /images request whose authorization header is present and empty is treated
  as one without the header: status 401 with the missing-auth message, and no call is made.
\<close>

theorem post_with_empty_authorization:
  assumes "authorization req = Some []"
  shows "post_images env req = (\<lparr>status = 401, sent = Text (MISSING_AUTH env)\<rparr>, [])
       \<and> post_images env req = post_images env (req\<lparr>authorization := None\<rparr>)"
  using assms by (simp add: post_images_def header_value_def UNAUTHORIZED_def)

theorem post_with_empty_authorization_witness:
  "post_images demo_services \<lparr>authorization = Some '''', body = [(''imgUrl'', JStr ''a.png'')]\<rparr>
     = (\<lparr>status = 401, sent = Text ''missing authorization header''\<rparr>, [])"
proof -
  have a: "authorization \<lparr>authorization = Some '''', body = [(''imgUrl'', JStr ''a.png'')]\<rparr> = Some []"
    by simp
  from post_with_empty_authorization [OF a, of demo_services] show ?thesis
    by (simp add: demo_services_sel)
qed

section \<open>Properties of the read handlers\<close>

text \<open>
  C7, as the handler has it. A GET /images request whose \<^verbatim>\<open>objects\<close> query parameter is
  a non-empty string is answered with status 200 and exactly the stored records, in store
  order, whose \<^verbatim>\<open>objects\<close> hold at least one of the comma-separated labels; a request
  without the parameter is answered with status 200 and every stored record.
\<close>

theorem get_images_filter:
  "(objects \<noteq> [] \<longrightarrow>
      get_images store (JStr objects) =
        \<lparr>status = 200,
         sent = Records (filter (\<lambda>d. set (md_objects d) \<inter> set (split_on CHR '','' objects) \<noteq> {})
                           store)\<rparr>)
   \<and> get_images store JUndefined = \<lparr>status = 200, sent = Records store\<rparr>"
  by (simp add: get_images_def find_docs_MatchAll find_docs_ObjectsIn OKAY_def)

theorem get_images_filter_witness:
  "split_on CHR '','' ''cat,dog'' = [''cat'', ''dog'']
   \<and> get_images demo_store (JStr ''cat,dog'') = \<lparr>status = 200, sent = Records [cat_doc, dog_doc]\<rparr>
   \<and> get_images demo_store JUndefined = \<lparr>status = 200, sent = Records [cat_doc, dog_doc, tree_doc]\<rparr>"
proof -
  have s: "split_on CHR '','' ''cat,dog'' = [''cat'', ''dog'']" by simp
  have f: "filter (\<lambda>d. set (md_objects d) \<inter> set [''cat'', ''dog''] \<noteq> {}) demo_store
             = [cat_doc, dog_doc]"
    by (simp add: demo_store_def cat_doc_def dog_doc_def tree_doc_def)
  have n: "''cat,dog'' \<noteq> []" by simp
  from get_images_filter [of "''cat,dog''" demo_store] n s f show ?thesis
    by (simp add: demo_store_def)
qed

text \<open>
  C7, as stated, fails for the empty string: \<^verbatim>\<open>?objects=\<close> is a string parameter, the
  guard of line 28 takes it for absent, and the one stored record is returned although none
  of its labels is among the pieces of the parameter.
\<close>

theorem get_images_empty_objects_counterexample:
  "get_images [tree_doc] (JStr '''') = \<lparr>status = 200, sent = Records [tree_doc]\<rparr>
   \<and> md_objects tree_doc = [''tree'']
   \<and> split_on CHR '','' '''' = ['''']
   \<and> set (md_objects tree_doc) \<inter> set (split_on CHR '','' '''') = {}"
  by (simp add: get_images_def find_docs_def OKAY_def tree_doc_def)

text \<open>
  C8. A GET /images/{id} request for an identifier that no stored record has is answered
  with status 400 and the body \<^verbatim>\<open>{message: "image not found"}\<close>; for the identifier of a
  stored record (identifiers being unique in the store) it is answered with status 200 and
  that record.
\<close>

theorem get_image_by_id_result:
  "((\<forall>d \<in> set store. md_id d \<noteq> i) \<longrightarrow>
      get_image_by_id store i =
        \<lparr>status = 400, sent = Json (JObj [(''message'', JStr ''image not found'')])\<rparr>)
   \<and> (distinct (map md_id store) \<and> d \<in> set store \<and> md_id d = i \<longrightarrow>
        get_image_by_id store i = \<lparr>status = 200, sent = Record d\<rparr>)"
proof (intro conjI impI)
  assume "\<forall>d \<in> set store. md_id d \<noteq> i"
  then show "get_image_by_id store i =
      \<lparr>status = 400, sent = Json (JObj [(''message'', JStr ''image not found'')])\<rparr>"
    by (simp add: get_image_by_id_def findById_absent BAD_REQUEST_def IMAGE_NOT_FOUND_def)
next
  assume a: "distinct (map md_id store) \<and> d \<in> set store \<and> md_id d = i"
  then have "findById store i = Some d" using findById_present [of store d] by auto
  then show "get_image_by_id store i = \<lparr>status = 200, sent = Record d\<rparr>"
    by (simp add: get_image_by_id_def OKAY_def)
qed

theorem get_image_by_id_result_witness:
  "get_image_by_id demo_store ''zz'' =
     \<lparr>status = 400, sent = Json (JObj [(''message'', JStr ''image not found'')])\<rparr>
   \<and> get_image_by_id demo_store ''b2'' = \<lparr>status = 200, sent = Record dog_doc\<rparr>"
proof -
  have a: "\<forall>d \<in> set demo_store. md_id d \<noteq> ''zz''"
    by (simp add: demo_store_def cat_doc_def dog_doc_def tree_doc_def)
  have b: "distinct (map md_id demo_store) \<and> dog_doc \<in> set demo_store \<and> md_id dog_doc = ''b2''"
    by (simp add: demo_store_def cat_doc_def dog_doc_def tree_doc_def)
  from get_image_by_id_result [of demo_store "''zz''" dog_doc] a
       get_image_by_id_result [of demo_store "''b2''" dog_doc] b
  show ?thesis by blast
qed

text \<open>
  C9. A GET /images request whose \<^verbatim>\<open>objects\<close> query parameter is present and is not a
  string (an array, when the parameter is given several times) is answered as a request
  without the parameter: status 200 with every stored record, the filter not applied.
\<close>

theorem get_images_non_string:
  assumes "objects_param \<noteq> JUndefined" and "typeof objects_param \<noteq> ''string''"
  shows "get_images store objects_param = \<lparr>status = 200, sent = Records store\<rparr>
       \<and> get_images store objects_param = get_images store JUndefined"
  using assms by (simp add: get_images_def find_docs_MatchAll OKAY_def)

theorem get_images_non_string_witness:
  "get_images demo_store (JArr [JStr ''cat'', JStr ''dog'']) =
     \<lparr>status = 200, sent = Records [cat_doc, dog_doc, tree_doc]\<rparr>"
proof -
  have a: "JArr [JStr ''cat'', JStr ''dog''] \<noteq> JUndefined" by simp
  have b: "typeof (JArr [JStr ''cat'', JStr ''dog'']) \<noteq> ''string''" by simp
  from get_images_non_string [OF a b, of demo_store] show ?thesis by (simp add: demo_store_def)
qed

end
